theory Spec2Isabelle
  imports Main "HOL-Library.Multiset" "HOL-Library.Product_Lexorder"
begin

section \<open>Values exchanged with the framework\<close>

text \<open>
  The service is a FastAPI router over one SQLAlchemy table. Every endpoint of
  \<^verbatim>\<open>routes.py\<close> is embedded as a function of the configured passphrase
  (\<^verbatim>\<open>UNLOCK_PHRASE\<close>, read once from the environment), the cookie the client
  presented, the request body and the table contents; it returns the HTTP outcome and the
  table contents after the request. A raised \<^verbatim>\<open>HTTPException\<close> is the left
  injection of the result.
\<close>

datatype http_error = HTTPException (status_code: nat) (detail: string)

datatype json =
    JNull
  | JBool bool
  | JInt int
  | JStr string
  | JArr "json list"
  | JObj "(string \<times> json) list"

text \<open>The arguments of \<^verbatim>\<open>response.set_cookie\<close>.\<close>

record set_cookie =
  key :: string
  "value" :: string
  httponly :: bool
  max_age :: nat
  samesite :: string

text \<open>The \<^verbatim>\<open>Response\<close> object built by the CSV export.\<close>

record Response =
  content :: string
  media_type :: string
  headers :: "(string \<times> string) list"

record UnlockRequest =
  phrase :: string

record SessionRequest =
  percentage :: int
  type :: string

definition SESSION_COOKIE_NAME :: string where
  "SESSION_COOKIE_NAME = ''chargerecorder_session''"

subsection \<open>Timestamps\<close>

text \<open>
  A naive \<^verbatim>\<open>datetime\<close>: its fields, compared lexicographically (which is how
  Python compares naive datetimes and how the stored text of the column sorts).
\<close>

record datetime =
  year :: nat
  month :: nat
  day :: nat
  hour :: nat
  minute :: nat
  second :: nat
  microsecond :: nat

definition dt_key :: "datetime \<Rightarrow> nat \<times> nat \<times> nat \<times> nat \<times> nat \<times> nat \<times> nat" where
  "dt_key d = (year d, month d, day d, hour d, minute d, second d, microsecond d)"

text \<open>Decimal text of a number, as \<^verbatim>\<open>str\<close> and the format specifiers produce it.\<close>

fun str_nat :: "nat \<Rightarrow> string" where
  "str_nat n =
     (if n < 10 then [''0123456789'' ! n]
      else str_nat (n div 10) @ [''0123456789'' ! (n mod 10)])"

declare str_nat.simps [simp del]

definition str_int :: "int \<Rightarrow> string" where
  "str_int i = (if i < 0 then CHR ''-'' # str_nat (nat (- i)) else str_nat (nat i))"

definition zfill :: "nat \<Rightarrow> string \<Rightarrow> string" where
  "zfill w s = replicate (w - length s) (CHR ''0'') @ s"

text \<open>
  \<^verbatim>\<open>datetime.isoformat()\<close>: \<^verbatim>\<open>YYYY-MM-DDTHH:MM:SS\<close>, followed by
  \<^verbatim>\<open>.ffffff\<close> when the microsecond field is not zero.
\<close>

definition isoformat :: "datetime \<Rightarrow> string" where
  "isoformat d =
     zfill 4 (str_nat (year d)) @ ''-'' @ zfill 2 (str_nat (month d)) @ ''-'' @
     zfill 2 (str_nat (day d)) @ ''T'' @ zfill 2 (str_nat (hour d)) @ '':'' @
     zfill 2 (str_nat (minute d)) @ '':'' @ zfill 2 (str_nat (second d)) @
     (if microsecond d \<noteq> 0 then ''.'' @ zfill 6 (str_nat (microsecond d)) else [])"

section \<open>The table \<^verbatim>\<open>charging_sessions\<close>\<close>

text \<open>
  One row of \<^verbatim>\<open>models.py\<close>. The two end columns are nullable. The column
  \<^verbatim>\<open>id\<close> is called \<open>id_col\<close> here, \<open>id\<close> being the identity function of HOL.
\<close>

record ChargingSession =
  id_col :: int
  start_percentage :: int
  start_time :: datetime
  end_percentage :: "int option"
  end_time :: "datetime option"

text \<open>The table is the list of its rows in insertion order.\<close>

type_synonym db = "ChargingSession list"

text \<open>
  The primary key the engine gives an inserted row: one more than the largest key in the
  table, 1 in an empty table (an integer primary key of SQLite without
  \<^verbatim>\<open>AUTOINCREMENT\<close>).
\<close>

definition next_id :: "db \<Rightarrow> int" where
  "next_id rows = (if rows = [] then 1 else Max (set (map id_col rows)) + 1)"

text \<open>
  \<^verbatim>\<open>order_by(ChargingSession.start_time.asc())\<close> and
  \<^verbatim>\<open>order_by(ChargingSession.start_time.desc())\<close>. SQL leaves the order of rows
  with equal keys open; the model keeps insertion order among them when ascending and
  the reverse when descending, and no theorem below depends on that choice.
\<close>

definition order_by_start_time_asc :: "db \<Rightarrow> db" where
  "order_by_start_time_asc rows = sort_key (\<lambda>s. dt_key (start_time s)) rows"

definition order_by_start_time_desc :: "db \<Rightarrow> db" where
  "order_by_start_time_desc rows = rev (sort_key (\<lambda>s. dt_key (start_time s)) rows)"

text \<open>\<^verbatim>\<open>Query.first()\<close>: the first row of the result, or \<^verbatim>\<open>None\<close>.\<close>

definition first :: "'a list \<Rightarrow> 'a option" where
  "first rows = (case rows of [] \<Rightarrow> None | r # _ \<Rightarrow> Some r)"

text \<open>
  The query both \<^verbatim>\<open>get_status\<close> and the \<^verbatim>\<open>"end"\<close> branch of
  \<^verbatim>\<open>create_session\<close> run: the rows whose \<^verbatim>\<open>end_percentage\<close> is null,
  latest start first, first row.
\<close>

definition open_session_query :: "db \<Rightarrow> ChargingSession option" where
  "open_session_query rows =
     first (order_by_start_time_desc (filter (\<lambda>s. end_percentage s = None) rows))"

section \<open>The authorisation gate\<close>

text \<open>Python's truth value of a string and of an optional string.\<close>

definition truthy_str :: "string \<Rightarrow> bool" where
  "truthy_str s = (s \<noteq> [])"

definition truthy_opt_str :: "string option \<Rightarrow> bool" where
  "truthy_opt_str c = (case c of None \<Rightarrow> False | Some s \<Rightarrow> truthy_str s)"

definition verify_session :: "string \<Rightarrow> string option \<Rightarrow> bool" where
  "verify_session UNLOCK_PHRASE session_cookie =
     (if \<not> truthy_str UNLOCK_PHRASE then True
      else if \<not> truthy_opt_str session_cookie then False
      else session_cookie = Some UNLOCK_PHRASE)"

definition require_auth :: "string \<Rightarrow> string option \<Rightarrow> http_error + unit" where
  "require_auth UNLOCK_PHRASE session_cookie =
     (if \<not> verify_session UNLOCK_PHRASE session_cookie
      then Inl (HTTPException 401 ''Unauthorized'')
      else Inr ())"

text \<open>
  \<^verbatim>\<open>POST /api/unlock\<close>: the returned body and the cookie set on the response,
  if any.
\<close>

definition unlock :: "string \<Rightarrow> UnlockRequest \<Rightarrow> http_error + (json \<times> set_cookie option)" where
  "unlock UNLOCK_PHRASE request =
     (if \<not> truthy_str UNLOCK_PHRASE
      then Inr (JObj [(''success'', JBool True), (''message'', JStr ''No passphrase configured'')],
                None)
      else if phrase request = UNLOCK_PHRASE
      then Inr (JObj [(''success'', JBool True), (''message'', JStr ''Unlocked'')],
                Some \<lparr>key = SESSION_COOKIE_NAME, value = UNLOCK_PHRASE, httponly = True,
                      max_age = 86400, samesite = ''lax''\<rparr>)
      else Inr (JObj [(''success'', JBool False), (''message'', JStr ''Incorrect passphrase'')],
                None))"

section \<open>The endpoints over the table\<close>

text \<open>Python's truth value of the two nullable columns: null and the integer 0 are false.\<close>

definition truthy_opt_int :: "int option \<Rightarrow> bool" where
  "truthy_opt_int v = (case v of None \<Rightarrow> False | Some n \<Rightarrow> n \<noteq> 0)"

definition truthy_opt_datetime :: "datetime option \<Rightarrow> bool" where
  "truthy_opt_datetime v = (case v of None \<Rightarrow> False | Some d \<Rightarrow> True)"

definition get_status :: "string \<Rightarrow> string option \<Rightarrow> db \<Rightarrow> (http_error + json) \<times> db" where
  "get_status UNLOCK_PHRASE session_cookie rows =
     (case require_auth UNLOCK_PHRASE session_cookie of
        Inl e \<Rightarrow> (Inl e, rows)
      | Inr _ \<Rightarrow>
          (case open_session_query rows of
             Some open_session \<Rightarrow>
               (Inr (JObj [(''status'', JStr ''charging''),
                           (''start_percentage'', JInt (start_percentage open_session)),
                           (''start_time'', JStr (isoformat (start_time open_session)))]),
                rows)
           | None \<Rightarrow> (Inr (JObj [(''status'', JStr ''idle'')]), rows)))"

definition get_sessions :: "string \<Rightarrow> string option \<Rightarrow> db \<Rightarrow> (http_error + json) \<times> db" where
  "get_sessions UNLOCK_PHRASE session_cookie rows =
     (case require_auth UNLOCK_PHRASE session_cookie of
        Inl e \<Rightarrow> (Inl e, rows)
      | Inr _ \<Rightarrow>
          (let sessions = order_by_start_time_desc rows in
           (Inr (JObj [(''sessions'',
                   JArr (map (\<lambda>s.
                     JObj [(''id'', JInt (id_col s)),
                           (''start_percentage'', JInt (start_percentage s)),
                           (''start_time'', JStr (isoformat (start_time s))),
                           (''end_percentage'',
                              (case end_percentage s of None \<Rightarrow> JNull | Some n \<Rightarrow> JInt n)),
                           (''end_time'',
                              (if truthy_opt_datetime (end_time s)
                               then (case end_time s of Some d \<Rightarrow> JStr (isoformat d)
                                                      | None \<Rightarrow> JNull)
                               else JNull))])
                     sessions))]),
            rows)))"

text \<open>
  \<^verbatim>\<open>POST /api/sessions\<close>. \<open>now\<close> is the value of
  \<^verbatim>\<open>datetime.now()\<close> read by the request. The \<^verbatim>\<open>"start"\<close> branch inserts
  a row with null end columns; the \<^verbatim>\<open>"end"\<close> branch assigns both end columns of
  the row the query found, which the commit writes to the row with that primary key.
\<close>

definition create_session ::
  "string \<Rightarrow> string option \<Rightarrow> SessionRequest \<Rightarrow> datetime \<Rightarrow> db \<Rightarrow> (http_error + json) \<times> db" where
  "create_session UNLOCK_PHRASE session_cookie request now rows =
     (case require_auth UNLOCK_PHRASE session_cookie of
        Inl e \<Rightarrow> (Inl e, rows)
      | Inr _ \<Rightarrow>
          if percentage request < 0 \<or> percentage request > 100
          then (Inl (HTTPException 400 ''Percentage must be between 0 and 100''), rows)
          else if type request = ''start''
          then
            (let session = \<lparr>id_col = next_id rows,
                            start_percentage = percentage request,
                            start_time = now,
                            end_percentage = None,
                            end_time = None\<rparr> in
             (Inr (JObj [(''message'',
                            JStr (''Recorded '' @ str_int (percentage request)
                                  @ ''% as start charge'')),
                         (''session'',
                            JObj [(''id'', JInt (id_col session)),
                                  (''start_percentage'', JInt (start_percentage session)),
                                  (''start_time'', JStr (isoformat (start_time session)))])]),
              rows @ [session]))
          else if type request = ''end''
          then
            (case open_session_query rows of
               None \<Rightarrow> (Inl (HTTPException 400 ''No active charging session found''), rows)
             | Some open_session \<Rightarrow>
                 (Inr (JObj [(''message'',
                                JStr (''Recorded '' @ str_int (percentage request)
                                      @ ''% as end charge'')),
                             (''session'',
                                JObj [(''id'', JInt (id_col open_session)),
                                      (''start_percentage'', JInt (start_percentage open_session)),
                                      (''start_time'', JStr (isoformat (start_time open_session))),
                                      (''end_percentage'', JInt (percentage request)),
                                      (''end_time'', JStr (isoformat now))])]),
                  map (\<lambda>r. if id_col r = id_col open_session
                            then r\<lparr>end_percentage := Some (percentage request),
                                   end_time := Some now\<rparr>
                            else r) rows))
          else (Inl (HTTPException 400 (''Type must be 'start' or 'end'' @ [CHR 0x27])), rows))"

subsection \<open>CSV export\<close>

text \<open>A value handed to \<^verbatim>\<open>csv.writer.writerow\<close>: an integer or a string.\<close>

datatype cell = CInt int | CStr string

definition cell_text :: "cell \<Rightarrow> string" where
  "cell_text c = (case c of CInt i \<Rightarrow> str_int i | CStr s \<Rightarrow> s)"

text \<open>
  The default dialect of \<^verbatim>\<open>csv.writer\<close>: fields separated by a comma, the row
  ended by CR LF, a field quoted (with its quotes doubled) only when it holds a comma, a
  quote, a CR or an LF, and a row made of one empty field written as two quotes.
\<close>

definition csv_special :: "char \<Rightarrow> bool" where
  "csv_special c = (c = CHR '','' \<or> c = CHR 0x22 \<or> c = CHR 0x0D \<or> c = CHR 0x0A)"

definition csv_field :: "string \<Rightarrow> string" where
  "csv_field s =
     (if list_ex csv_special s
      then [CHR 0x22] @ concat (map (\<lambda>c. if c = CHR 0x22 then [c, c] else [c]) s) @ [CHR 0x22]
      else s)"

fun join_comma :: "string list \<Rightarrow> string" where
  "join_comma [] = []"
| "join_comma [f] = f"
| "join_comma (f # g # fs) = f @ '','' @ join_comma (g # fs)"

definition writerow :: "cell list \<Rightarrow> string" where
  "writerow cells =
     (if map cell_text cells = [[]] then [CHR 0x22, CHR 0x22]
      else join_comma (map (csv_field \<circ> cell_text) cells))
     @ [CHR 0x0D, CHR 0x0A]"

text \<open>The list handed to \<^verbatim>\<open>writerow\<close> for one session.\<close>

definition csv_cells :: "ChargingSession \<Rightarrow> cell list" where
  "csv_cells s =
     [CInt (start_percentage s),
      CStr (isoformat (start_time s)),
      (if truthy_opt_int (end_percentage s)
       then (case end_percentage s of Some n \<Rightarrow> CInt n | None \<Rightarrow> CStr [])
       else CStr []),
      (if truthy_opt_datetime (end_time s)
       then (case end_time s of Some d \<Rightarrow> CStr (isoformat d) | None \<Rightarrow> CStr [])
       else CStr [])]"

definition csv_header :: "cell list" where
  "csv_header =
     [CStr ''start_percentage'', CStr ''start_datetime'',
      CStr ''end_percentage'', CStr ''end_datetime'']"

definition export_csv :: "string \<Rightarrow> string option \<Rightarrow> db \<Rightarrow> (http_error + Response) \<times> db" where
  "export_csv UNLOCK_PHRASE session_cookie rows =
     (case require_auth UNLOCK_PHRASE session_cookie of
        Inl e \<Rightarrow> (Inl e, rows)
      | Inr _ \<Rightarrow>
          (let sessions = order_by_start_time_asc rows;
               csv_content = writerow csv_header @ concat (map (writerow \<circ> csv_cells) sessions)
           in (Inr \<lparr>content = csv_content,
                    media_type = ''text/csv'',
                    headers = [(''Content-Disposition'',
                                ''attachment; filename=charging_sessions.csv'')]\<rparr>,
               rows)))"

subsection \<open>Deleting\<close>

definition delete_session :: "string \<Rightarrow> string option \<Rightarrow> int \<Rightarrow> db \<Rightarrow> (http_error + json) \<times> db" where
  "delete_session UNLOCK_PHRASE session_cookie session_id rows =
     (case require_auth UNLOCK_PHRASE session_cookie of
        Inl e \<Rightarrow> (Inl e, rows)
      | Inr _ \<Rightarrow>
          (case first (filter (\<lambda>s. id_col s = session_id) rows) of
             None \<Rightarrow> (Inl (HTTPException 404 ''Session not found''), rows)
           | Some session \<Rightarrow>
               (Inr (JObj [(''message'', JStr ''Session deleted'')]),
                filter (\<lambda>s. id_col s \<noteq> id_col session) rows)))"

definition delete_all_sessions :: "string \<Rightarrow> string option \<Rightarrow> db \<Rightarrow> (http_error + json) \<times> db" where
  "delete_all_sessions UNLOCK_PHRASE session_cookie rows =
     (case require_auth UNLOCK_PHRASE session_cookie of
        Inl e \<Rightarrow> (Inl e, rows)
      | Inr _ \<Rightarrow> (Inr (JObj [(''message'', JStr ''All sessions deleted'')]), []))"

definition health_check :: "http_error + json" where
  "health_check = Inr (JObj [(''status'', JStr ''ok'')])"

section \<open>Sequences of requests\<close>

text \<open>
  A request to one of the endpoints that work on the table, with the cookie it presents;
  a \<open>CreateSession\<close> carries the clock reading of its handler. \<open>handle\<close> is the table
  after the request, \<open>run\<close> the table after a sequence of requests.
\<close>

datatype api_call =
    GetStatus
  | GetSessions
  | CreateSession SessionRequest datetime
  | ExportCsv
  | DeleteSession int
  | DeleteAllSessions

fun handle :: "string \<Rightarrow> string option \<times> api_call \<Rightarrow> db \<Rightarrow> db" where
  "handle P (c, GetStatus) rows = snd (get_status P c rows)"
| "handle P (c, GetSessions) rows = snd (get_sessions P c rows)"
| "handle P (c, CreateSession request now) rows = snd (create_session P c request now rows)"
| "handle P (c, ExportCsv) rows = snd (export_csv P c rows)"
| "handle P (c, DeleteSession session_id) rows = snd (delete_session P c session_id rows)"
| "handle P (c, DeleteAllSessions) rows = snd (delete_all_sessions P c rows)"

definition run :: "string \<Rightarrow> (string option \<times> api_call) list \<Rightarrow> db \<Rightarrow> db" where
  "run P calls rows = fold (handle P) calls rows"

text \<open>A session is open when its \<^verbatim>\<open>end_percentage\<close> is null.\<close>

definition is_open :: "ChargingSession \<Rightarrow> bool" where
  "is_open s = (end_percentage s = None)"

definition open_count :: "db \<Rightarrow> nat" where
  "open_count rows = length (filter is_open rows)"

text \<open>
  A sequence of requests keeps to the discipline \<open>starts_when_idle\<close> when each of its
  \<^verbatim>\<open>"start"\<close> requests arrives at a table without an open session.
\<close>

fun starts_when_idle :: "string \<Rightarrow> (string option \<times> api_call) list \<Rightarrow> db \<Rightarrow> bool" where
  "starts_when_idle P [] rows = True"
| "starts_when_idle P ((c, call) # calls) rows =
     ((case call of
         CreateSession request now \<Rightarrow> type request = ''start'' \<longrightarrow> open_count rows = 0
       | _ \<Rightarrow> True)
      \<and> starts_when_idle P calls (handle P (c, call) rows))"

text \<open>Both end columns are null, or neither is.\<close>

definition end_fields_paired :: "ChargingSession \<Rightarrow> bool" where
  "end_fields_paired s = ((end_percentage s = None) = (end_time s = None))"

section \<open>The client's cookies\<close>

text \<open>
  The cookies a client holds, by name. A response that sets a cookie stores it under the
  cookie's key; any other response leaves the cookies as they were. Every guarded endpoint
  declares its parameter as \<^verbatim>\<open>session_cookie: Optional[str] = Cookie(None)\<close>, which
  the framework binds to the cookie of that name.
\<close>

type_synonym cookies = "string \<rightharpoonup> string"

definition receive :: "cookies \<Rightarrow> http_error + (json \<times> set_cookie option) \<Rightarrow> cookies" where
  "receive jar response =
     (case response of
        Inr (body, Some c) \<Rightarrow> jar(key c \<mapsto> value c)
      | _ \<Rightarrow> jar)"

definition session_cookie_param :: "cookies \<Rightarrow> string option" where
  "session_cookie_param jar = jar ''session_cookie''"

section \<open>The response formats as the specification words them\<close>

text \<open>
  One entry of the session list: \<^verbatim>\<open>{id, start_percentage, start_time,
  end_percentage|null, end_time|null}\<close>, an end field being its value when present and
  null when absent.
\<close>

definition spec_session_entry :: "ChargingSession \<Rightarrow> json" where
  "spec_session_entry s =
     JObj [(''id'', JInt (id_col s)),
           (''start_percentage'', JInt (start_percentage s)),
           (''start_time'', JStr (isoformat (start_time s))),
           (''end_percentage'', (case end_percentage s of None \<Rightarrow> JNull | Some n \<Rightarrow> JInt n)),
           (''end_time'', (case end_time s of None \<Rightarrow> JNull | Some d \<Rightarrow> JStr (isoformat d)))]"

text \<open>
  One row of the export: the two start fields and the two end fields as text, an absent
  end field as the empty string.
\<close>

definition spec_csv_cells :: "ChargingSession \<Rightarrow> cell list" where
  "spec_csv_cells s =
     [CInt (start_percentage s),
      CStr (isoformat (start_time s)),
      (case end_percentage s of Some n \<Rightarrow> CInt n | None \<Rightarrow> CStr []),
      (case end_time s of Some d \<Rightarrow> CStr (isoformat d) | None \<Rightarrow> CStr [])]"

section \<open>Sample data\<close>

text \<open>Three clock readings of one day and three rows, used to run the model.\<close>

definition t_morning :: datetime where
  "t_morning = \<lparr>year = 2024, month = 1, day = 5, hour = 8, minute = 30, second = 0, microsecond = 0\<rparr>"

definition t_noon :: datetime where
  "t_noon = \<lparr>year = 2024, month = 1, day = 5, hour = 12, minute = 0, second = 7, microsecond = 0\<rparr>"

definition t_evening :: datetime where
  "t_evening = \<lparr>year = 2024, month = 1, day = 5, hour = 19, minute = 45, second = 0, microsecond = 250\<rparr>"

definition closed_row :: ChargingSession where
  "closed_row = \<lparr>id_col = 1, start_percentage = 50, start_time = t_morning,
                  end_percentage = Some 80, end_time = Some t_noon\<rparr>"

definition open_row_early :: ChargingSession where
  "open_row_early = \<lparr>id_col = 2, start_percentage = 20, start_time = t_morning,
                      end_percentage = None, end_time = None\<rparr>"

definition open_row_late :: ChargingSession where
  "open_row_late = \<lparr>id_col = 3, start_percentage = 35, start_time = t_noon,
                     end_percentage = None, end_time = None\<rparr>"

text \<open>A \<^verbatim>\<open>"start"\<close> and an \<^verbatim>\<open>"end"\<close> request sent without a cookie.\<close>

definition start_at :: "int \<Rightarrow> datetime \<Rightarrow> string option \<times> api_call" where
  "start_at p now = (None, CreateSession \<lparr>percentage = p, type = ''start''\<rparr> now)"

definition end_at :: "int \<Rightarrow> datetime \<Rightarrow> string option \<times> api_call" where
  "end_at p now = (None, CreateSession \<lparr>percentage = p, type = ''end''\<rparr> now)"

section \<open>Auxiliary facts\<close>

subsection \<open>Queries\<close>

lemma first_eq_None: "first xs = None \<longleftrightarrow> xs = []"
  by (cases xs) (simp_all add: first_def)

lemma order_desc_eq_Nil: "order_by_start_time_desc rows = [] \<longleftrightarrow> rows = []"
proof -
  have "length (order_by_start_time_desc rows) = length rows"
    by (simp add: order_by_start_time_desc_def)
  then show ?thesis by (metis length_0_conv)
qed

lemma open_session_query_None:
  "open_session_query rows = None \<longleftrightarrow> (\<forall>s\<in>set rows. end_percentage s \<noteq> None)"
  by (simp add: open_session_query_def first_eq_None order_desc_eq_Nil filter_empty_conv)

lemma mset_order_desc: "mset (order_by_start_time_desc rows) = mset rows"
  by (simp add: order_by_start_time_desc_def)

lemma set_order_desc: "set (order_by_start_time_desc rows) = set rows"
  by (simp add: order_by_start_time_desc_def)

lemma sorted_order_desc:
  "sorted_wrt (\<lambda>a b. dt_key (start_time b) \<le> dt_key (start_time a)) (order_by_start_time_desc rows)"
proof -
  have "sorted (map (\<lambda>s. dt_key (start_time s)) (sort_key (\<lambda>s. dt_key (start_time s)) rows))"
    by (rule sorted_sort_key)
  then have "sorted_wrt (\<lambda>a b. dt_key (start_time a) \<le> dt_key (start_time b))
               (sort_key (\<lambda>s. dt_key (start_time s)) rows)"
    by (simp add: sorted_map)
  then show ?thesis
    by (simp add: order_by_start_time_desc_def sorted_wrt_rev)
qed

lemma mset_order_asc: "mset (order_by_start_time_asc rows) = mset rows"
  by (simp add: order_by_start_time_asc_def)

lemma sorted_order_asc:
  "sorted_wrt (\<lambda>a b. dt_key (start_time a) \<le> dt_key (start_time b)) (order_by_start_time_asc rows)"
proof -
  have "sorted (map (\<lambda>s. dt_key (start_time s)) (sort_key (\<lambda>s. dt_key (start_time s)) rows))"
    by (rule sorted_sort_key)
  then show ?thesis
    by (simp add: order_by_start_time_asc_def sorted_map)
qed

lemma first_eq_Some: "first xs = Some x \<longleftrightarrow> (\<exists>ys. xs = x # ys)"
  by (cases xs) (auto simp: first_def)

lemma open_session_query_Some:
  assumes "open_session_query rows = Some s"
  shows "s \<in> set rows" and "end_percentage s = None"
    and "\<forall>r\<in>set rows. end_percentage r = None \<longrightarrow> dt_key (start_time r) \<le> dt_key (start_time s)"
proof -
  let ?open = "filter (\<lambda>s. end_percentage s = None) rows"
  from assms obtain rest where eq: "order_by_start_time_desc ?open = s # rest"
    by (auto simp: open_session_query_def first_eq_Some)
  have "set (s # rest) = set ?open"
    using set_order_desc [of ?open] by (simp add: eq)
  then have mem: "s \<in> set ?open" and sub: "set ?open \<subseteq> insert s (set rest)"
    by auto
  from mem show "s \<in> set rows" and "end_percentage s = None" by simp_all
  have "sorted_wrt (\<lambda>a b. dt_key (start_time b) \<le> dt_key (start_time a)) (s # rest)"
    using sorted_order_desc [of ?open] by (simp add: eq)
  then have "\<forall>r\<in>set rest. dt_key (start_time r) \<le> dt_key (start_time s)"
    by simp
  with sub show "\<forall>r\<in>set rows. end_percentage r = None \<longrightarrow> dt_key (start_time r) \<le> dt_key (start_time s)"
    by auto
qed

lemma update_by_key:
  assumes "distinct (map id_col rows)" and "s \<in> set rows"
  shows "map (\<lambda>r. if id_col r = id_col s then f r else r) rows
         = map (\<lambda>r. if r = s then f r else r) rows"
proof (rule map_cong [OF refl])
  fix r assume "r \<in> set rows"
  with assms have "id_col r = id_col s \<longleftrightarrow> r = s"
    by (meson distinct_map inj_on_def)
  then show "(if id_col r = id_col s then f r else r) = (if r = s then f r else r)"
    by simp
qed

subsection \<open>The gate\<close>

lemma require_auth_ok: "verify_session P c \<Longrightarrow> require_auth P c = Inr ()"
  by (simp add: require_auth_def)

lemma require_auth_denied:
  "\<not> verify_session P c \<Longrightarrow> require_auth P c = Inl (HTTPException 401 ''Unauthorized'')"
  by (simp add: require_auth_def)

lemma verify_session_denied: "P \<noteq> [] \<Longrightarrow> c \<noteq> Some P \<Longrightarrow> \<not> verify_session P c"
  by (auto simp: verify_session_def truthy_str_def truthy_opt_str_def)

subsection \<open>Formatting\<close>

lemma get_sessions_entry:
  "(\<lambda>s. JObj [(''id'', JInt (id_col s)),
               (''start_percentage'', JInt (start_percentage s)),
               (''start_time'', JStr (isoformat (start_time s))),
               (''end_percentage'', (case end_percentage s of None \<Rightarrow> JNull | Some n \<Rightarrow> JInt n)),
               (''end_time'',
                  (if truthy_opt_datetime (end_time s)
                   then (case end_time s of Some d \<Rightarrow> JStr (isoformat d) | None \<Rightarrow> JNull)
                   else JNull))])
   = spec_session_entry"
  by (rule ext) (simp add: spec_session_entry_def truthy_opt_datetime_def split: option.splits)

lemma iso_morning: "isoformat t_morning = ''2024-01-05T08:30:00''"
  by (simp add: isoformat_def t_morning_def zfill_def str_nat.simps)

lemma iso_noon: "isoformat t_noon = ''2024-01-05T12:00:07''"
  by (simp add: isoformat_def t_noon_def zfill_def str_nat.simps)

lemma order_desc_sample:
  "order_by_start_time_desc [closed_row, open_row_late] = [open_row_late, closed_row]"
  by (simp add: order_by_start_time_desc_def dt_key_def closed_row_def open_row_late_def
      t_morning_def t_noon_def)

subsection \<open>The table after a request\<close>

lemma snd_create_session:
  "snd (create_session P c request now rows) =
     (if \<not> verify_session P c \<or> percentage request < 0 \<or> percentage request > 100 then rows
      else if type request = ''start''
      then rows @ [\<lparr>id_col = next_id rows, start_percentage = percentage request,
                    start_time = now, end_percentage = None, end_time = None\<rparr>]
      else if type request = ''end''
      then (case open_session_query rows of
              None \<Rightarrow> rows
            | Some open_session \<Rightarrow>
                map (\<lambda>r. if id_col r = id_col open_session
                          then r\<lparr>end_percentage := Some (percentage request),
                                 end_time := Some now\<rparr>
                          else r) rows)
      else rows)"
  unfolding create_session_def require_auth_def Let_def
  by (simp split: option.split)

lemma snd_get_status: "snd (get_status P c rows) = rows"
  by (cases "require_auth P c") (simp_all add: get_status_def split: option.split)

lemma snd_get_sessions: "snd (get_sessions P c rows) = rows"
  by (cases "require_auth P c") (simp_all add: get_sessions_def Let_def)

lemma snd_export_csv: "snd (export_csv P c rows) = rows"
  by (cases "require_auth P c") (simp_all add: export_csv_def Let_def)

lemma snd_delete_session:
  "snd (delete_session P c session_id rows) =
     (if \<not> verify_session P c then rows
      else (case first (filter (\<lambda>s. id_col s = session_id) rows) of
              None \<Rightarrow> rows
            | Some session \<Rightarrow> filter (\<lambda>s. id_col s \<noteq> id_col session) rows))"
  unfolding delete_session_def require_auth_def
  by (simp split: option.split)

lemma snd_delete_all_sessions:
  "snd (delete_all_sessions P c rows) = (if \<not> verify_session P c then rows else [])"
  unfolding delete_all_sessions_def require_auth_def
  by simp

subsection \<open>Counting open sessions\<close>

lemma open_count_append: "open_count (xs @ ys) = open_count xs + open_count ys"
  by (simp add: open_count_def)

lemma open_count_filter: "open_count (filter Q rows) \<le> open_count rows"
  by (induction rows) (auto simp: open_count_def)

lemma open_count_close:
  "open_count (map (\<lambda>r. if Q r then r\<lparr>end_percentage := Some p, end_time := Some t\<rparr> else r) rows)
     \<le> open_count rows"
  by (induction rows) (auto simp: open_count_def is_open_def)

lemma open_count_create_session:
  "open_count (snd (create_session P c request now rows))
     \<le> (if type request = ''start'' then open_count rows + 1 else open_count rows)"
  unfolding snd_create_session
  by (simp add: open_count_append open_count_close split: option.split)
     (simp add: open_count_def is_open_def)

lemma open_count_handle:
  "open_count (handle P (c, call) rows)
     \<le> (case call of
           CreateSession request now \<Rightarrow>
             if type request = ''start'' then open_count rows + 1 else open_count rows
         | _ \<Rightarrow> open_count rows)"
proof (cases call)
  case (CreateSession request now)
  then show ?thesis using open_count_create_session [of P c request now rows] by simp
next
  case (DeleteSession session_id)
  then show ?thesis
    by (simp add: snd_delete_session open_count_filter split: option.split)
next
  case DeleteAllSessions
  then show ?thesis
    by (simp add: snd_delete_all_sessions open_count_def)
qed (simp_all add: snd_get_status snd_get_sessions snd_export_csv)

lemma starts_when_idle_bound:
  "open_count rows \<le> 1 \<Longrightarrow> starts_when_idle P calls rows \<Longrightarrow>
   open_count (run P calls rows) \<le> 1"
proof (induction calls arbitrary: rows)
  case Nil
  then show ?case by (simp add: run_def)
next
  case (Cons x calls)
  obtain c call where x: "x = (c, call)" by (cases x)
  from Cons.prems(2) have idle: "starts_when_idle P calls (handle P (c, call) rows)"
    by (simp add: x)
  have "open_count (handle P (c, call) rows) \<le> 1"
    using open_count_handle [of P c call rows] Cons.prems
    by (cases call) (auto simp: x split: if_splits)
  from Cons.IH [OF this idle] show ?case
    by (simp add: run_def x)
qed

lemma verify_session_no_phrase: "verify_session [] c"
  by (simp add: verify_session_def truthy_str_def)

lemma open_session_query_single:
  "open_session_query [s] = (if end_percentage s = None then Some s else None)"
  by (simp add: open_session_query_def order_by_start_time_desc_def first_def)

lemma handle_start_at:
  "0 \<le> p \<Longrightarrow> p \<le> 100 \<Longrightarrow>
   handle [] (start_at p now) rows
     = rows @ [\<lparr>id_col = next_id rows, start_percentage = p, start_time = now,
                 end_percentage = None, end_time = None\<rparr>]"
  by (simp add: start_at_def snd_create_session verify_session_no_phrase)

lemma handle_end_at_single:
  "0 \<le> p \<Longrightarrow> p \<le> 100 \<Longrightarrow> end_percentage s = None \<Longrightarrow>
   handle [] (end_at p now) [s] = [s\<lparr>end_percentage := Some p, end_time := Some now\<rparr>]"
  by (simp add: end_at_def snd_create_session verify_session_no_phrase open_session_query_single)

lemma run_start_end:
  "0 \<le> p \<Longrightarrow> p \<le> 100 \<Longrightarrow> 0 \<le> q \<Longrightarrow> q \<le> 100 \<Longrightarrow>
   run [] [start_at p t, end_at q u] []
     = [\<lparr>id_col = 1, start_percentage = p, start_time = t,
          end_percentage = Some q, end_time = Some u\<rparr>]"
  by (simp add: run_def handle_start_at handle_end_at_single next_id_def)

lemma run_two_starts:
  "run [] [start_at 50 t_morning, start_at 60 t_noon] []
     = [\<lparr>id_col = 1, start_percentage = 50, start_time = t_morning,
          end_percentage = None, end_time = None\<rparr>,
        \<lparr>id_col = 2, start_percentage = 60, start_time = t_noon,
          end_percentage = None, end_time = None\<rparr>]"
  by (simp add: run_def handle_start_at next_id_def)

lemma starts_when_idle_start_at:
  "starts_when_idle P (start_at p now # calls) rows
     = (open_count rows = 0 \<and> starts_when_idle P calls (handle P (start_at p now) rows))"
  by (simp add: start_at_def)

lemma starts_when_idle_end_at:
  "starts_when_idle P (end_at p now # calls) rows
     = starts_when_idle P calls (handle P (end_at p now) rows)"
  by (simp add: end_at_def)

subsection \<open>The end columns\<close>

lemma handle_rows:
  assumes "s' \<in> set (handle P (c, call) rows)"
  shows "s' \<in> set rows
         \<or> (end_percentage s' = None \<and> end_time s' = None)
         \<or> (end_percentage s' \<noteq> None \<and> end_time s' \<noteq> None)"
proof (cases call)
  case (CreateSession request now)
  with assms have "s' \<in> set (snd (create_session P c request now rows))" by simp
  then show ?thesis
    unfolding snd_create_session
    by (auto split: if_splits option.splits)
next
  case (DeleteSession session_id)
  with assms show ?thesis
    by (auto simp: snd_delete_session split: if_splits option.splits)
next
  case DeleteAllSessions
  with assms show ?thesis
    by (auto simp: snd_delete_all_sessions split: if_splits)
next
  case GetStatus
  with assms show ?thesis by (simp add: snd_get_status)
next
  case GetSessions
  with assms show ?thesis by (simp add: snd_get_sessions)
next
  case ExportCsv
  with assms show ?thesis by (simp add: snd_export_csv)
qed

lemma handle_paired:
  assumes "\<forall>s\<in>set rows. end_fields_paired s"
  shows "\<forall>s\<in>set (handle P x rows). end_fields_paired s"
proof
  fix s' assume m: "s' \<in> set (handle P x rows)"
  obtain c call where x: "x = (c, call)" by (cases x)
  from handle_rows [of s' P c call rows] m x assms
  show "end_fields_paired s'"
    by (auto simp: end_fields_paired_def)
qed

lemma run_paired:
  "\<forall>s\<in>set rows. end_fields_paired s \<Longrightarrow> \<forall>s\<in>set (run P calls rows). end_fields_paired s"
proof (induction calls arbitrary: rows)
  case Nil
  then show ?case by (simp add: run_def)
next
  case (Cons x calls)
  from Cons.IH [OF handle_paired [OF Cons.prems, of P x]]
  show ?case by (simp add: run_def)
qed

lemma close_rows:
  "list_all2 (\<lambda>r r'. r' = r \<or> r' = r\<lparr>end_percentage := Some p, end_time := Some now\<rparr>) rows
     (map (\<lambda>r. if Q r then r\<lparr>end_percentage := Some p, end_time := Some now\<rparr> else r) rows)"
  by (induction rows) simp_all

lemma list_all2_same: "list_all2 (\<lambda>r r'. r' = r \<or> R r r') rows rows"
  by (induction rows) simp_all

subsection \<open>The export\<close>

text \<open>
  The row the export writes is the row the specification words exactly when the
  session's \<^verbatim>\<open>end_percentage\<close> is not the integer 0, and on a table without such
  a session the whole export is as specified: the header, then one row per session in
  ascending order of \<^verbatim>\<open>start_time\<close>.
\<close>

lemma csv_cells_eq_spec: "csv_cells s = spec_csv_cells s \<longleftrightarrow> end_percentage s \<noteq> Some 0"
  by (simp add: csv_cells_def spec_csv_cells_def truthy_opt_int_def truthy_opt_datetime_def
      split: option.split)

lemma export_csv_as_specified:
  assumes "verify_session P c" and "\<forall>s\<in>set rows. end_percentage s \<noteq> Some 0"
  shows "export_csv P c rows
           = (Inr \<lparr>content = writerow csv_header
                      @ concat (map (writerow \<circ> spec_csv_cells) (order_by_start_time_asc rows)),
                    media_type = ''text/csv'',
                    headers = [(''Content-Disposition'',
                                ''attachment; filename=charging_sessions.csv'')]\<rparr>, rows)"
proof -
  have "set (order_by_start_time_asc rows) = set rows"
    by (simp add: order_by_start_time_asc_def)
  with assms(2) have "map (writerow \<circ> csv_cells) (order_by_start_time_asc rows)
      = map (writerow \<circ> spec_csv_cells) (order_by_start_time_asc rows)"
    by (intro map_cong [OF refl]) (simp add: csv_cells_eq_spec [THEN iffD2])
  then have eq: "concat (map (writerow \<circ> csv_cells) (order_by_start_time_asc rows))
      = concat (map (writerow \<circ> spec_csv_cells) (order_by_start_time_asc rows))"
    by (rule arg_cong)
  show ?thesis
    unfolding export_csv_def Let_def require_auth_ok [OF assms(1)] eq by simp
qed

lemma writerow_header:
  "writerow csv_header
     = ''start_percentage,start_datetime,end_percentage,end_datetime'' @ [CHR 0x0D, CHR 0x0A]"
  by (simp add: writerow_def csv_header_def cell_text_def csv_field_def csv_special_def)

lemma str_int_50: "str_int 50 = ''50''"
  by (simp add: str_int_def str_nat.simps)

lemma writerow_zero_end:
  "writerow [CInt 50, CStr ''2024-01-05T08:30:00'', CStr [], CStr ''2024-01-05T12:00:07'']
     = ''50,2024-01-05T08:30:00,,2024-01-05T12:00:07'' @ [CHR 0x0D, CHR 0x0A]"
  by (simp add: writerow_def cell_text_def csv_field_def csv_special_def str_int_50)

lemma csv_cells_zero_end:
  "csv_cells \<lparr>id_col = 1, start_percentage = 50, start_time = t_morning,
               end_percentage = Some 0, end_time = Some t_noon\<rparr>
     = [CInt 50, CStr ''2024-01-05T08:30:00'', CStr [], CStr ''2024-01-05T12:00:07'']"
  by (simp add: csv_cells_def truthy_opt_int_def truthy_opt_datetime_def iso_morning iso_noon)

section \<open>The gate\<close>

text \<open>
  C6. For every token, absent ones included, \<open>verify_session\<close> answers true exactly
  when no passphrase is configured (the configured passphrase is empty) or the token is
  the configured passphrase; with an empty passphrase it answers true for every request.
\<close>

theorem verify_session_iff:
  "(verify_session UNLOCK_PHRASE session_cookie
      = (UNLOCK_PHRASE = [] \<or> session_cookie = Some UNLOCK_PHRASE))
   \<and> verify_session [] session_cookie"
  by (auto simp: verify_session_def truthy_str_def truthy_opt_str_def)

theorem verify_session_iff_witness:
  "verify_session ''hunter2'' (Some ''hunter2'') \<and> \<not> verify_session ''hunter2'' None
   \<and> \<not> verify_session ''hunter2'' (Some ''guess'') \<and> verify_session [] None"
  using verify_session_iff [of "''hunter2''" "Some ''hunter2''"]
        verify_session_iff [of "''hunter2''" None]
        verify_session_iff [of "''hunter2''" "Some ''guess''"]
        verify_session_iff [of "[]" None]
  by simp

text \<open>
  C7. When a passphrase is configured and the presented cookie is not that passphrase,
  each of status, list, record, CSV export, delete one and delete all raises status 401
  and returns the table as it was; the health check takes no cookie and answers
  \<^verbatim>\<open>{"status": "ok"}\<close>.
\<close>

theorem unauthorized_blocks_every_endpoint:
  assumes "UNLOCK_PHRASE \<noteq> []" and "session_cookie \<noteq> Some UNLOCK_PHRASE"
  shows "get_status UNLOCK_PHRASE session_cookie rows = (Inl (HTTPException 401 ''Unauthorized''), rows)
       \<and> get_sessions UNLOCK_PHRASE session_cookie rows = (Inl (HTTPException 401 ''Unauthorized''), rows)
       \<and> create_session UNLOCK_PHRASE session_cookie request now rows
           = (Inl (HTTPException 401 ''Unauthorized''), rows)
       \<and> export_csv UNLOCK_PHRASE session_cookie rows = (Inl (HTTPException 401 ''Unauthorized''), rows)
       \<and> delete_session UNLOCK_PHRASE session_cookie session_id rows
           = (Inl (HTTPException 401 ''Unauthorized''), rows)
       \<and> delete_all_sessions UNLOCK_PHRASE session_cookie rows
           = (Inl (HTTPException 401 ''Unauthorized''), rows)
       \<and> health_check = Inr (JObj [(''status'', JStr ''ok'')])"
proof -
  have d: "require_auth UNLOCK_PHRASE session_cookie = Inl (HTTPException 401 ''Unauthorized'')"
    using assms by (simp add: require_auth_denied verify_session_denied)
  show ?thesis
    by (simp add: d get_status_def get_sessions_def create_session_def export_csv_def
        delete_session_def delete_all_sessions_def health_check_def)
qed

theorem unauthorized_blocks_every_endpoint_witness:
  "''hunter2'' \<noteq> [] \<and> Some ''guess'' \<noteq> Some ''hunter2''
   \<and> get_status ''hunter2'' (Some ''guess'') [open_row_late]
       = (Inl (HTTPException 401 ''Unauthorized''), [open_row_late])
   \<and> create_session ''hunter2'' (Some ''guess'') \<lparr>percentage = 90, type = ''end''\<rparr> t_evening
         [open_row_late]
       = (Inl (HTTPException 401 ''Unauthorized''), [open_row_late])
   \<and> delete_all_sessions ''hunter2'' (Some ''guess'') [open_row_late]
       = (Inl (HTTPException 401 ''Unauthorized''), [open_row_late])"
  using unauthorized_blocks_every_endpoint
          [of "''hunter2''" "Some ''guess''" "[open_row_late]"
              "\<lparr>percentage = 90, type = ''end''\<rparr>" t_evening]
  by simp

text \<open>
  C8. With a passphrase configured, \<^verbatim>\<open>unlock\<close> with any other phrase returns
  (it does not raise) the body \<^verbatim>\<open>{success: false, message: ...}\<close> and sets no
  cookie, so the caller's cookies are what they were, and a caller that did not already
  hold the passphrase as its session cookie is refused by \<open>verify_session\<close> afterwards.
  With the matching phrase it sets a cookie whose value is the configured passphrase and
  whose lifetime is 24 hours.
\<close>

theorem unlock_wrong_phrase:
  assumes "UNLOCK_PHRASE \<noteq> []"
  shows "(phrase request \<noteq> UNLOCK_PHRASE \<longrightarrow>
            unlock UNLOCK_PHRASE request
              = Inr (JObj [(''success'', JBool False), (''message'', JStr ''Incorrect passphrase'')],
                     None)
            \<and> receive jar (unlock UNLOCK_PHRASE request) = jar
            \<and> (session_cookie_param jar \<noteq> Some UNLOCK_PHRASE \<longrightarrow>
                 \<not> verify_session UNLOCK_PHRASE
                     (session_cookie_param (receive jar (unlock UNLOCK_PHRASE request)))))
       \<and> (phrase request = UNLOCK_PHRASE \<longrightarrow>
            unlock UNLOCK_PHRASE request
              = Inr (JObj [(''success'', JBool True), (''message'', JStr ''Unlocked'')],
                     Some \<lparr>key = ''chargerecorder_session'', value = UNLOCK_PHRASE,
                           httponly = True, max_age = 24 * 60 * 60, samesite = ''lax''\<rparr>))"
  using assms
  by (auto simp: unlock_def truthy_str_def receive_def verify_session_denied
      SESSION_COOKIE_NAME_def)

theorem unlock_wrong_phrase_witness:
  "''hunter2'' \<noteq> [] \<and> ''guess'' \<noteq> ''hunter2''
   \<and> unlock ''hunter2'' \<lparr>phrase = ''guess''\<rparr>
       = Inr (JObj [(''success'', JBool False), (''message'', JStr ''Incorrect passphrase'')], None)
   \<and> session_cookie_param Map.empty \<noteq> Some ''hunter2''
   \<and> \<not> verify_session ''hunter2''
         (session_cookie_param (receive Map.empty (unlock ''hunter2'' \<lparr>phrase = ''guess''\<rparr>)))
   \<and> unlock ''hunter2'' \<lparr>phrase = ''hunter2''\<rparr>
       = Inr (JObj [(''success'', JBool True), (''message'', JStr ''Unlocked'')],
              Some \<lparr>key = ''chargerecorder_session'', value = ''hunter2'', httponly = True,
                    max_age = 86400, samesite = ''lax''\<rparr>)"
proof -
  have j: "session_cookie_param Map.empty \<noteq> Some ''hunter2''"
    by (simp add: session_cookie_param_def)
  show ?thesis
    using j unlock_wrong_phrase [of "''hunter2''" "\<lparr>phrase = ''guess''\<rparr>" Map.empty]
      unlock_wrong_phrase [of "''hunter2''" "\<lparr>phrase = ''hunter2''\<rparr>" Map.empty]
    by auto
qed

section \<open>Recording\<close>

text \<open>
  C2. For every percentage \<open>p\<close> in [0,100], an \<^verbatim>\<open>"end"\<close> request on a table in
  which no row has a null \<^verbatim>\<open>end_percentage\<close> is answered, once the gate has let
  it through, with status 400 and the detail \<^verbatim>\<open>No active charging session found\<close>;
  the table is returned as it was, whatever the gate decided.
\<close>

theorem end_without_open_session:
  assumes "0 \<le> p" and "p \<le> 100" and "\<forall>s\<in>set rows. end_percentage s \<noteq> None"
  shows "(verify_session UNLOCK_PHRASE session_cookie \<longrightarrow>
            create_session UNLOCK_PHRASE session_cookie \<lparr>percentage = p, type = ''end''\<rparr> now rows
              = (Inl (HTTPException 400 ''No active charging session found''), rows))
         \<and> snd (create_session UNLOCK_PHRASE session_cookie \<lparr>percentage = p, type = ''end''\<rparr> now rows) = rows"
proof -
  have none: "open_session_query rows = None"
    using assms(3) by (simp add: open_session_query_None)
  show ?thesis
    using assms(1,2) none
    by (cases "verify_session UNLOCK_PHRASE session_cookie")
       (simp_all add: create_session_def require_auth_ok require_auth_denied)
qed

theorem end_without_open_session_witness:
  "(0::int) \<le> 80 \<and> (80::int) \<le> 100 \<and> end_percentage closed_row \<noteq> None
   \<and> verify_session ''hunter2'' (Some ''hunter2'')
   \<and> create_session ''hunter2'' (Some ''hunter2'') \<lparr>percentage = 80, type = ''end''\<rparr>
         t_evening [closed_row]
       = (Inl (HTTPException 400 ''No active charging session found''), [closed_row])"
proof -
  have h: "\<forall>s\<in>set [closed_row]. end_percentage s \<noteq> None"
    by (simp add: closed_row_def)
  have v: "verify_session ''hunter2'' (Some ''hunter2'')"
    by (simp add: verify_session_def truthy_str_def truthy_opt_str_def)
  show ?thesis
    using h v end_without_open_session [of 80 "[closed_row]" "''hunter2''" "Some ''hunter2''" t_evening]
    by simp
qed

text \<open>
  C3. For every integer percentage outside [0,100] and every \<^verbatim>\<open>type\<close> string, the
  request is answered, once the gate has let it through, with status 400 (the detail
  says the percentage must be between 0 and 100), and the table is returned as it was,
  whatever the gate decided.
\<close>

theorem percentage_out_of_range:
  assumes "p < 0 \<or> 100 < p"
  shows "(verify_session UNLOCK_PHRASE session_cookie \<longrightarrow>
            create_session UNLOCK_PHRASE session_cookie \<lparr>percentage = p, type = kind\<rparr> now rows
              = (Inl (HTTPException 400 ''Percentage must be between 0 and 100''), rows))
         \<and> snd (create_session UNLOCK_PHRASE session_cookie \<lparr>percentage = p, type = kind\<rparr> now rows) = rows"
  using assms
  by (cases "verify_session UNLOCK_PHRASE session_cookie")
     (auto simp add: create_session_def require_auth_ok require_auth_denied)

theorem percentage_out_of_range_witness:
  "(100::int) < 101 \<and> (- 1::int) < 0 \<and> verify_session ''hunter2'' (Some ''hunter2'')
   \<and> create_session ''hunter2'' (Some ''hunter2'') \<lparr>percentage = 101, type = ''start''\<rparr>
         t_evening [closed_row]
       = (Inl (HTTPException 400 ''Percentage must be between 0 and 100''), [closed_row])
   \<and> snd (create_session ''hunter2'' None \<lparr>percentage = - 1, type = ''pause''\<rparr>
         t_evening [closed_row]) = [closed_row]"
proof -
  have v: "verify_session ''hunter2'' (Some ''hunter2'')"
    by (simp add: verify_session_def truthy_str_def truthy_opt_str_def)
  show ?thesis
    using v percentage_out_of_range [of 101 "''hunter2''" "Some ''hunter2''" "''start''" t_evening "[closed_row]"]
      percentage_out_of_range [of "- 1" "''hunter2''" None "''pause''" t_evening "[closed_row]"]
    by simp
qed

text \<open>
  C5. The query for the open session yields nothing exactly when no row has a null
  \<^verbatim>\<open>end_percentage\<close>. When it yields a row \<open>s\<close>, that row is in the table, its
  \<^verbatim>\<open>end_percentage\<close> is null and no row with a null \<^verbatim>\<open>end_percentage\<close>
  starts later; the status endpoint reports \<open>s\<close>, and an \<^verbatim>\<open>"end"\<close> request with
  percentage \<open>p\<close> at clock reading \<open>now\<close> changes the table (whose primary keys are
  distinct) in that row only, setting its end columns to \<open>p\<close> and \<open>now\<close>.
\<close>

theorem open_session_query_latest:
  "(open_session_query rows = None \<longleftrightarrow> (\<forall>r\<in>set rows. end_percentage r \<noteq> None))
   \<and> (open_session_query rows = Some s \<longrightarrow>
        s \<in> set rows \<and> end_percentage s = None
        \<and> (\<forall>r\<in>set rows. end_percentage r = None
               \<longrightarrow> dt_key (start_time r) \<le> dt_key (start_time s))
        \<and> (verify_session UNLOCK_PHRASE session_cookie \<longrightarrow>
              get_status UNLOCK_PHRASE session_cookie rows
                = (Inr (JObj [(''status'', JStr ''charging''),
                              (''start_percentage'', JInt (start_percentage s)),
                              (''start_time'', JStr (isoformat (start_time s)))]), rows))
        \<and> (verify_session UNLOCK_PHRASE session_cookie \<and> 0 \<le> p \<and> p \<le> 100
              \<and> distinct (map id_col rows) \<longrightarrow>
              snd (create_session UNLOCK_PHRASE session_cookie
                     \<lparr>percentage = p, type = ''end''\<rparr> now rows)
                = map (\<lambda>r. if r = s then r\<lparr>end_percentage := Some p, end_time := Some now\<rparr> else r)
                    rows))"
proof (intro conjI impI)
  show "open_session_query rows = None \<longleftrightarrow> (\<forall>r\<in>set rows. end_percentage r \<noteq> None)"
    by (rule open_session_query_None)
next
  assume q: "open_session_query rows = Some s"
  show "s \<in> set rows" "end_percentage s = None"
    "\<forall>r\<in>set rows. end_percentage r = None \<longrightarrow> dt_key (start_time r) \<le> dt_key (start_time s)"
    using open_session_query_Some [OF q] by blast+
  {
    assume "verify_session UNLOCK_PHRASE session_cookie"
    then show "get_status UNLOCK_PHRASE session_cookie rows
                = (Inr (JObj [(''status'', JStr ''charging''),
                              (''start_percentage'', JInt (start_percentage s)),
                              (''start_time'', JStr (isoformat (start_time s)))]), rows)"
      by (simp add: get_status_def require_auth_ok q)
  }
  {
    assume a: "verify_session UNLOCK_PHRASE session_cookie \<and> 0 \<le> p \<and> p \<le> 100
              \<and> distinct (map id_col rows)"
    then have "snd (create_session UNLOCK_PHRASE session_cookie
                     \<lparr>percentage = p, type = ''end''\<rparr> now rows)
        = map (\<lambda>r. if id_col r = id_col s
                     then r\<lparr>end_percentage := Some p, end_time := Some now\<rparr> else r) rows"
      by (simp add: create_session_def require_auth_ok q)
    also have "\<dots> = map (\<lambda>r. if r = s then r\<lparr>end_percentage := Some p, end_time := Some now\<rparr> else r) rows"
      using a open_session_query_Some(1) [OF q] by (intro update_by_key) simp_all
    finally show "snd (create_session UNLOCK_PHRASE session_cookie
                     \<lparr>percentage = p, type = ''end''\<rparr> now rows)
                = map (\<lambda>r. if r = s then r\<lparr>end_percentage := Some p, end_time := Some now\<rparr> else r)
                    rows" .
  }
qed

theorem open_session_query_latest_witness:
  "open_session_query [closed_row, open_row_early, open_row_late] = Some open_row_late
   \<and> open_row_late \<in> set [closed_row, open_row_early, open_row_late]
   \<and> end_percentage open_row_late = None
   \<and> dt_key (start_time open_row_early) \<le> dt_key (start_time open_row_late)
   \<and> verify_session [] None \<and> (0::int) \<le> 90 \<and> (90::int) \<le> 100
   \<and> distinct (map id_col [closed_row, open_row_early, open_row_late])
   \<and> snd (create_session [] None \<lparr>percentage = 90, type = ''end''\<rparr> t_evening
            [closed_row, open_row_early, open_row_late])
       = [closed_row, open_row_early,
          open_row_late\<lparr>end_percentage := Some 90, end_time := Some t_evening\<rparr>]
   \<and> open_session_query [closed_row] = None"
proof -
  let ?rows = "[closed_row, open_row_early, open_row_late]"
  have q: "open_session_query ?rows = Some open_row_late"
    by (simp add: open_session_query_def order_by_start_time_desc_def first_def dt_key_def
        closed_row_def open_row_early_def open_row_late_def t_morning_def t_noon_def)
  have v: "verify_session [] None"
    by (simp add: verify_session_def truthy_str_def)
  have d: "distinct (map id_col ?rows)"
    by (simp add: closed_row_def open_row_early_def open_row_late_def)
  have ne: "closed_row \<noteq> open_row_late" "open_row_early \<noteq> open_row_late"
    by (simp_all add: closed_row_def open_row_early_def open_row_late_def)
  have n: "\<forall>r\<in>set [closed_row]. end_percentage r \<noteq> None"
    by (simp add: closed_row_def)
  have e: "end_percentage open_row_early = None"
    by (simp add: open_row_early_def)
  show ?thesis
    using q v d ne e
      open_session_query_latest [of ?rows open_row_late "[]" None 90 t_evening]
      n open_session_query_latest [of "[closed_row]" open_row_late "[]" None 90 t_evening]
    by simp
qed

section \<open>Listing\<close>

text \<open>
  C9. For every table, the session list answered to an authorised request holds one
  entry per stored row (the listed rows are a permutation of the table), latest
  \<^verbatim>\<open>start_time\<close> first, each entry carrying id, start_percentage, start_time and
  the two end fields, as values when present and as null when absent.
\<close>

theorem get_sessions_all_descending:
  "(verify_session UNLOCK_PHRASE session_cookie \<longrightarrow>
      get_sessions UNLOCK_PHRASE session_cookie rows
        = (Inr (JObj [(''sessions'',
                       JArr (map spec_session_entry (order_by_start_time_desc rows)))]), rows))
   \<and> mset (order_by_start_time_desc rows) = mset rows
   \<and> sorted_wrt (\<lambda>a b. dt_key (start_time b) \<le> dt_key (start_time a))
        (order_by_start_time_desc rows)"
  by (simp add: get_sessions_def require_auth_ok get_sessions_entry mset_order_desc
      sorted_order_desc)

theorem get_sessions_all_descending_witness:
  "verify_session [] None
   \<and> get_sessions [] None [closed_row, open_row_late]
       = (Inr (JObj [(''sessions'',
             JArr [JObj [(''id'', JInt 3), (''start_percentage'', JInt 35),
                         (''start_time'', JStr ''2024-01-05T12:00:07''),
                         (''end_percentage'', JNull), (''end_time'', JNull)],
                   JObj [(''id'', JInt 1), (''start_percentage'', JInt 50),
                         (''start_time'', JStr ''2024-01-05T08:30:00''),
                         (''end_percentage'', JInt 80),
                         (''end_time'', JStr ''2024-01-05T12:00:07'')]])]),
          [closed_row, open_row_late])"
proof -
  have v: "verify_session [] None"
    by (simp add: verify_session_def truthy_str_def)
  have e: "spec_session_entry open_row_late
             = JObj [(''id'', JInt 3), (''start_percentage'', JInt 35),
                     (''start_time'', JStr ''2024-01-05T12:00:07''),
                     (''end_percentage'', JNull), (''end_time'', JNull)]"
    "spec_session_entry closed_row
             = JObj [(''id'', JInt 1), (''start_percentage'', JInt 50),
                     (''start_time'', JStr ''2024-01-05T08:30:00''),
                     (''end_percentage'', JInt 80),
                     (''end_time'', JStr ''2024-01-05T12:00:07'')]"
    using iso_morning iso_noon
    by (simp_all add: spec_session_entry_def open_row_late_def closed_row_def)
  show ?thesis
    using v get_sessions_all_descending [of "[]" None "[closed_row, open_row_late]"]
    by (simp add: order_desc_sample e)
qed

section \<open>Exporting\<close>

text \<open>
  C4. The export is to carry, for every closed session, the \<^verbatim>\<open>end_percentage\<close> it
  was closed with, 0 included. The code tests the column by its truth value, so a session
  closed at 0 is written with an empty \<^verbatim>\<open>end_percentage\<close> field: after a start
  at 50 and an end at 0 the export is the header and the row
  \<^verbatim>\<open>50,2024-01-05T08:30:00,,2024-01-05T12:00:07\<close>.
\<close>

theorem export_csv_blank_for_zero_end:
  "export_csv [] None (run [] [start_at 50 t_morning, end_at 0 t_noon] [])
     = (Inr \<lparr>content =
                ''start_percentage,start_datetime,end_percentage,end_datetime''
                  @ [CHR 0x0D, CHR 0x0A]
                  @ ''50,2024-01-05T08:30:00,,2024-01-05T12:00:07'' @ [CHR 0x0D, CHR 0x0A],
              media_type = ''text/csv'',
              headers = [(''Content-Disposition'',
                          ''attachment; filename=charging_sessions.csv'')]\<rparr>,
        [\<lparr>id_col = 1, start_percentage = 50, start_time = t_morning,
           end_percentage = Some 0, end_time = Some t_noon\<rparr>])"
proof -
  have r: "run [] [start_at 50 t_morning, end_at 0 t_noon] []
             = [\<lparr>id_col = 1, start_percentage = 50, start_time = t_morning,
                  end_percentage = Some 0, end_time = Some t_noon\<rparr>]"
    by (simp add: run_start_end)
  have "require_auth [] None = Inr ()"
    by (simp add: require_auth_ok verify_session_no_phrase)
  then show ?thesis
    unfolding r export_csv_def Let_def order_by_start_time_asc_def
    by (simp add: writerow_header writerow_zero_end csv_cells_zero_end)
qed

section \<open>Invariants of the table\<close>

text \<open>
  C1, as amended. A \<^verbatim>\<open>"start"\<close> request that passes the gate and the range check
  adds one open session whatever the table holds, so the number of open sessions is
  bounded only under a discipline: from a table with at most one open session, every
  sequence of requests (start, end, delete, delete all, and the reading ones) whose
  starts each arrive while no session is open leads to a table with at most one open
  session.
\<close>

theorem at_most_one_open_when_starts_idle:
  "(verify_session P c \<and> 0 \<le> p \<and> p \<le> 100 \<longrightarrow>
      open_count (snd (create_session P c \<lparr>percentage = p, type = ''start''\<rparr> now rows))
        = open_count rows + 1)
   \<and> (open_count rows \<le> 1 \<and> starts_when_idle P calls rows \<longrightarrow>
        open_count (run P calls rows) \<le> 1)"
proof (intro conjI impI)
  assume "verify_session P c \<and> 0 \<le> p \<and> p \<le> 100"
  then show "open_count (snd (create_session P c \<lparr>percentage = p, type = ''start''\<rparr> now rows))
        = open_count rows + 1"
    by (simp add: snd_create_session open_count_append) (simp add: open_count_def is_open_def)
next
  assume a: "open_count rows \<le> 1 \<and> starts_when_idle P calls rows"
  show "open_count (run P calls rows) \<le> 1"
    by (rule starts_when_idle_bound) (use a in blast)+
qed

theorem at_most_one_open_when_starts_idle_witness:
  "verify_session [] None \<and> (0::int) \<le> 35 \<and> (35::int) \<le> 100
   \<and> open_count (snd (create_session [] None \<lparr>percentage = 35, type = ''start''\<rparr> t_noon
                        [open_row_early])) = 2
   \<and> open_count [] \<le> 1
   \<and> starts_when_idle [] [start_at 50 t_morning, end_at 80 t_noon, start_at 20 t_evening] []
   \<and> open_count (run [] [start_at 50 t_morning, end_at 80 t_noon, start_at 20 t_evening] []) \<le> 1"
proof -
  let ?calls = "[start_at 50 t_morning, end_at 80 t_noon, start_at 20 t_evening]"
  have c0: "open_count [] \<le> 1"
    by (simp add: open_count_def)
  have c1: "open_count [open_row_early] = 1"
    by (simp add: open_count_def is_open_def open_row_early_def)
  have idle: "starts_when_idle [] ?calls []"
    by (simp add: starts_when_idle_start_at starts_when_idle_end_at handle_start_at
        handle_end_at_single next_id_def open_count_def is_open_def)
  have v: "verify_session [] None"
    by (rule verify_session_no_phrase)
  from v c1 have two: "open_count (snd (create_session [] None
        \<lparr>percentage = 35, type = ''start''\<rparr> t_noon [open_row_early])) = 2"
    using at_most_one_open_when_starts_idle [of "[]" None 35 t_noon "[open_row_early]" "[]"]
    by simp
  from c0 idle have le: "open_count (run [] ?calls []) \<le> 1"
    using at_most_one_open_when_starts_idle [of "[]" None 35 t_noon "[]" ?calls]
    by blast
  show ?thesis
    using v two c0 idle le by simp
qed

text \<open>
  C1 as stated fails: two starts in a row, sent to the empty table with no passphrase
  configured, leave two sessions whose end fields are both absent.
\<close>

theorem two_starts_leave_two_open:
  "run [] [start_at 50 t_morning, start_at 60 t_noon] []
     = [\<lparr>id_col = 1, start_percentage = 50, start_time = t_morning,
          end_percentage = None, end_time = None\<rparr>,
        \<lparr>id_col = 2, start_percentage = 60, start_time = t_noon,
          end_percentage = None, end_time = None\<rparr>]
   \<and> \<not> open_count (run [] [start_at 50 t_morning, start_at 60 t_noon] []) \<le> 1"
  by (simp add: run_two_starts open_count_def is_open_def)

text \<open>
  C10. In every table reached through the API, from the empty table or from any table
  in which it already holds, each row has \<^verbatim>\<open>end_percentage\<close> absent exactly when
  \<^verbatim>\<open>end_time\<close> is absent. A start appends a row with both absent; an end leaves
  each row as it was or sets both of its end fields; and whatever the request, a row of
  the table after it is a row of the table before it, or has both fields absent, or has
  both set.
\<close>

theorem end_fields_set_together:
  "((\<forall>s\<in>set rows. end_fields_paired s) \<longrightarrow> (\<forall>s\<in>set (run P calls rows). end_fields_paired s))
   \<and> (\<forall>s\<in>set (run P calls []). end_fields_paired s)
   \<and> (verify_session P c \<and> 0 \<le> p \<and> p \<le> 100 \<longrightarrow>
        (\<exists>s'. snd (create_session P c \<lparr>percentage = p, type = ''start''\<rparr> now rows) = rows @ [s']
              \<and> end_percentage s' = None \<and> end_time s' = None))
   \<and> list_all2 (\<lambda>r r'. r' = r \<or> r' = r\<lparr>end_percentage := Some p, end_time := Some now\<rparr>) rows
        (snd (create_session P c \<lparr>percentage = p, type = ''end''\<rparr> now rows))
   \<and> (\<forall>s'\<in>set (handle P (c, call) rows).
          s' \<in> set rows
          \<or> (end_percentage s' = None \<and> end_time s' = None)
          \<or> (end_percentage s' \<noteq> None \<and> end_time s' \<noteq> None))"
proof (intro conjI impI)
  assume "\<forall>s\<in>set rows. end_fields_paired s"
  then show "\<forall>s\<in>set (run P calls rows). end_fields_paired s"
    by (rule run_paired)
next
  show "\<forall>s\<in>set (run P calls []). end_fields_paired s"
    by (rule run_paired) simp
next
  assume "verify_session P c \<and> 0 \<le> p \<and> p \<le> 100"
  then show "\<exists>s'. snd (create_session P c \<lparr>percentage = p, type = ''start''\<rparr> now rows) = rows @ [s']
              \<and> end_percentage s' = None \<and> end_time s' = None"
    by (simp add: snd_create_session)
next
  show "list_all2 (\<lambda>r r'. r' = r \<or> r' = r\<lparr>end_percentage := Some p, end_time := Some now\<rparr>) rows
        (snd (create_session P c \<lparr>percentage = p, type = ''end''\<rparr> now rows))"
    unfolding snd_create_session
    by (simp add: close_rows list_all2_same split: option.split cong: if_cong)
next
  show "\<forall>s'\<in>set (handle P (c, call) rows).
          s' \<in> set rows
          \<or> (end_percentage s' = None \<and> end_time s' = None)
          \<or> (end_percentage s' \<noteq> None \<and> end_time s' \<noteq> None)"
    using handle_rows [of _ P c call rows] by blast
qed

theorem end_fields_set_together_witness:
  "end_fields_paired open_row_early
   \<and> run [] [end_at 90 t_evening] [open_row_early]
       = [open_row_early\<lparr>end_percentage := Some 90, end_time := Some t_evening\<rparr>]
   \<and> end_fields_paired (open_row_early\<lparr>end_percentage := Some 90, end_time := Some t_evening\<rparr>)
   \<and> run [] [start_at 50 t_morning, end_at 80 t_noon] [] = [closed_row]
   \<and> end_fields_paired closed_row"
proof -
  have p: "end_fields_paired open_row_early"
    by (simp add: end_fields_paired_def open_row_early_def)
  have r1: "run [] [end_at 90 t_evening] [open_row_early]
       = [open_row_early\<lparr>end_percentage := Some 90, end_time := Some t_evening\<rparr>]"
    by (simp add: run_def handle_end_at_single open_row_early_def)
  have r2: "run [] [start_at 50 t_morning, end_at 80 t_noon] [] = [closed_row]"
    by (simp add: run_start_end closed_row_def)
  have "\<forall>s\<in>set [open_row_early]. end_fields_paired s"
    using p by simp
  then have "\<forall>s\<in>set (run [] [end_at 90 t_evening] [open_row_early]). end_fields_paired s"
    by (rule end_fields_set_together
        [of "[open_row_early]" "[]" "[end_at 90 t_evening]" None 0 t_noon GetStatus,
         THEN conjunct1, THEN mp])
  then have a: "end_fields_paired (open_row_early\<lparr>end_percentage := Some 90, end_time := Some t_evening\<rparr>)"
    unfolding r1 by simp
  have "\<forall>s\<in>set (run [] [start_at 50 t_morning, end_at 80 t_noon] []). end_fields_paired s"
    by (rule end_fields_set_together
        [of "[]" "[]" "[start_at 50 t_morning, end_at 80 t_noon]" None 0 t_noon GetStatus,
         THEN conjunct2, THEN conjunct1])
  then have b: "end_fields_paired closed_row"
    unfolding r2 by simp
  from p r1 a r2 b show ?thesis
    by (intro conjI)
qed

end
